theory Spec2Isabelle
  imports Main "HOL-Library.Multiset"
begin

section \<open>Calendar dates\<close>

text \<open>
  The date columns hold Python \<^verbatim>\<open>datetime.date\<close> values. A date is a triple of
  year, month and day; dates compare as the triples do, and the difference of two dates
  is a \<^verbatim>\<open>timedelta\<close> whose \<^verbatim>\<open>days\<close> is the difference of the proleptic Gregorian
  ordinals. The ordinal follows the standard library's \<^verbatim>\<open>_ymd2ord\<close>.
\<close>

record date =
  year :: int
  month :: int
  day :: int

definition is_leap :: "int \<Rightarrow> bool" where
  "is_leap y = (y mod 4 = 0 \<and> (y mod 100 \<noteq> 0 \<or> y mod 400 = 0))"

definition days_before_year :: "int \<Rightarrow> int" where
  "days_before_year y = (let y1 = y - 1 in y1 * 365 + y1 div 4 - y1 div 100 + y1 div 400)"

definition DAYS_IN_MONTH :: "int list" where
  "DAYS_IN_MONTH = [-1, 31, 28, 31, 30, 31, 30, 31, 31, 30, 31, 30, 31]"

definition DAYS_BEFORE_MONTH :: "int list" where
  "DAYS_BEFORE_MONTH = [-1, 0, 31, 59, 90, 120, 151, 181, 212, 243, 273, 304, 334]"

definition days_in_month :: "int \<Rightarrow> int \<Rightarrow> int" where
  "days_in_month y m = (if m = 2 \<and> is_leap y then 29 else DAYS_IN_MONTH ! nat m)"

definition days_before_month :: "int \<Rightarrow> int \<Rightarrow> int" where
  "days_before_month y m = DAYS_BEFORE_MONTH ! nat m + (if m > 2 \<and> is_leap y then 1 else 0)"

definition ymd2ord :: "int \<Rightarrow> int \<Rightarrow> int \<Rightarrow> int" where
  "ymd2ord y m d = days_before_year y + days_before_month y m + d"

definition toordinal :: "date \<Rightarrow> int" where
  "toordinal dt = ymd2ord (year dt) (month dt) (day dt)"

text \<open>The constructor of \<^verbatim>\<open>date\<close> raises unless the triple is a day of the calendar.\<close>

definition valid_date :: "date \<Rightarrow> bool" where
  "valid_date dt =
     (1 \<le> year dt \<and> year dt \<le> 9999 \<and> 1 \<le> month dt \<and> month dt \<le> 12 \<and>
      1 \<le> day dt \<and> day dt \<le> days_in_month (year dt) (month dt))"

definition date_less :: "date \<Rightarrow> date \<Rightarrow> bool" where
  "date_less a b =
     (year a < year b \<or>
      (year a = year b \<and> (month a < month b \<or> (month a = month b \<and> day a < day b))))"

text \<open>\<^verbatim>\<open>(a - b).days\<close>\<close>

definition date_sub_days :: "date \<Rightarrow> date \<Rightarrow> int" where
  "date_sub_days a b = toordinal a - toordinal b"

definition mk_date :: "int \<Rightarrow> int \<Rightarrow> int \<Rightarrow> date" where
  "mk_date y m d = \<lparr>year = y, month = m, day = d\<rparr>"


section \<open>Discharge summaries: model, validation and persistence\<close>

text \<open>
  \<^verbatim>\<open>DateTimeField\<close> values are points on a discrete clock. An instance of the model
  class is a Python object whose attributes may still be unset (\<^verbatim>\<open>None\<close>); a row of
  the table has a value in every column. Of the columns of \<^verbatim>\<open>DischargeSummary\<close> the
  model keeps the keys, the two dates, the derived length of stay, the follow-up pair,
  the risk level and the two time stamps; no rule reads the remaining columns (free
  text, and the creator that \<^verbatim>\<open>create\<close> takes from the request).
\<close>

type_synonym timestamp = int

record DischargeSummary =
  pk :: "nat option"
  patient :: "nat option"
  hospital :: "nat option"
  admission_date :: "date option"
  discharge_date :: "date option"
  length_of_stay_days :: "int option"
  follow_up_required :: bool
  follow_up_timeframe :: string
  risk_level :: string
  created_at :: "timestamp option"
  updated_at :: "timestamp option"

record DischargeSummaryRow =
  row_id :: nat
  row_patient :: nat
  row_hospital :: nat
  row_admission_date :: date
  row_discharge_date :: date
  row_length_of_stay_days :: int
  row_follow_up_required :: bool
  row_follow_up_timeframe :: string
  row_risk_level :: string
  row_created_at :: timestamp
  row_updated_at :: timestamp

record db =
  rows :: "nat \<rightharpoonup> DischargeSummaryRow"
  next_id :: nat

datatype db_error = IntegrityError

definition empty_db :: db where
  "empty_db = \<lparr>rows = Map.empty, next_id = 1\<rparr>"

text \<open>
  \<^verbatim>\<open>DischargeSummary.save\<close>, the two lines before \<^verbatim>\<open>super().save()\<close>: a date is
  truthy, \<^verbatim>\<open>None\<close> is not.
\<close>

definition save_length_of_stay :: "DischargeSummary \<Rightarrow> DischargeSummary" where
  "save_length_of_stay self =
     (case admission_date self of
        None \<Rightarrow> self
      | Some a \<Rightarrow>
          (case discharge_date self of
             None \<Rightarrow> self
           | Some d \<Rightarrow> self\<lparr>length_of_stay_days := Some (date_sub_days d a)\<rparr>))"

text \<open>
  \<^verbatim>\<open>super().save()\<close> is the object-relational mapper's: it writes the instance as a
  row. An instance without a key is inserted under the next key of the sequence; an
  instance with a key replaces the row of that key, or is inserted under it when there
  is none. \<^verbatim>\<open>created_at\<close> is stamped on insertion (\<^verbatim>\<open>auto_now_add\<close>), \<^verbatim>\<open>updated_at\<close>
  on every save (\<^verbatim>\<open>auto_now\<close>). The write fails with an integrity error when a column
  declared without \<^verbatim>\<open>null=True\<close> has no value, and when the
  \<^verbatim>\<open>PositiveIntegerField\<close> column would hold a negative number (the column's check
  constraint).
\<close>

definition to_row :: "DischargeSummary \<Rightarrow> DischargeSummaryRow option" where
  "to_row self =
     (case pk self of None \<Rightarrow> None | Some k \<Rightarrow>
     (case patient self of None \<Rightarrow> None | Some p \<Rightarrow>
     (case hospital self of None \<Rightarrow> None | Some h \<Rightarrow>
     (case admission_date self of None \<Rightarrow> None | Some a \<Rightarrow>
     (case discharge_date self of None \<Rightarrow> None | Some d \<Rightarrow>
     (case length_of_stay_days self of None \<Rightarrow> None | Some n \<Rightarrow>
     (case created_at self of None \<Rightarrow> None | Some c \<Rightarrow>
     (case updated_at self of None \<Rightarrow> None | Some u \<Rightarrow>
        Some \<lparr>row_id = k, row_patient = p, row_hospital = h,
              row_admission_date = a, row_discharge_date = d,
              row_length_of_stay_days = n,
              row_follow_up_required = follow_up_required self,
              row_follow_up_timeframe = follow_up_timeframe self,
              row_risk_level = risk_level self,
              row_created_at = c, row_updated_at = u\<rparr>))))))))"

definition from_row :: "DischargeSummaryRow \<Rightarrow> DischargeSummary" where
  "from_row r =
     \<lparr>pk = Some (row_id r), patient = Some (row_patient r), hospital = Some (row_hospital r),
      admission_date = Some (row_admission_date r),
      discharge_date = Some (row_discharge_date r),
      length_of_stay_days = Some (row_length_of_stay_days r),
      follow_up_required = row_follow_up_required r,
      follow_up_timeframe = row_follow_up_timeframe r,
      risk_level = row_risk_level r,
      created_at = Some (row_created_at r), updated_at = Some (row_updated_at r)\<rparr>"

definition Model_save ::
  "timestamp \<Rightarrow> DischargeSummary \<Rightarrow> db \<Rightarrow> db_error + (DischargeSummary \<times> db)" where
  "Model_save now self st =
     (let adding = (case pk self of None \<Rightarrow> True | Some k \<Rightarrow> rows st k = None);
          k = (case pk self of None \<Rightarrow> next_id st | Some k \<Rightarrow> k);
          self' = self\<lparr>pk := Some k,
                       created_at := (if adding then Some now else created_at self),
                       updated_at := Some now\<rparr>
      in case to_row self' of
           None \<Rightarrow> Inl IntegrityError
         | Some row \<Rightarrow>
             if row_length_of_stay_days row < 0 then Inl IntegrityError
             else Inr (self',
                       st\<lparr>rows := (rows st)(k \<mapsto> row),
                          next_id := (if pk self = None then Suc (next_id st) else next_id st)\<rparr>))"

definition DischargeSummary_save ::
  "timestamp \<Rightarrow> DischargeSummary \<Rightarrow> db \<Rightarrow> db_error + (DischargeSummary \<times> db)" where
  "DischargeSummary_save now self st = Model_save now (save_length_of_stay self) st"

subsection \<open>The create/update serializer\<close>

text \<open>
  \<^verbatim>\<open>validate\<close> receives the dictionary of the fields that passed field validation; a
  key that the request left out is absent, and \<^verbatim>\<open>data.get\<close> then gives \<^verbatim>\<open>None\<close>.
  The error carries the field it is reported under.
\<close>

record DischargeSummaryData =
  d_patient :: "nat option"
  d_hospital :: "nat option"
  d_admission_date :: "date option"
  d_discharge_date :: "date option"
  d_follow_up_required :: "bool option"
  d_follow_up_timeframe :: "string option"
  d_risk_level :: "string option"

datatype validation_error = ValidationError string string

definition DischargeSummaryCreateSerializer_validate ::
  "DischargeSummaryData \<Rightarrow> validation_error + DischargeSummaryData" where
  "DischargeSummaryCreateSerializer_validate data =
     (if (case d_discharge_date data of
            None \<Rightarrow> False
          | Some d \<Rightarrow> (case d_admission_date data of None \<Rightarrow> False | Some a \<Rightarrow> date_less d a))
      then Inl (ValidationError ''discharge_date''
                  ''Discharge date cannot be before admission date.'')
      else if d_follow_up_required data = Some True \<and>
              (d_follow_up_timeframe data = None \<or> d_follow_up_timeframe data = Some [])
      then Inl (ValidationError ''follow_up_timeframe''
                  ''Follow-up timeframe is required when follow-up is required.'')
      else Inr data)"

text \<open>
  Field validation runs before \<^verbatim>\<open>validate\<close>: unless the update is partial, a model
  field without default and not blank is required. The date fields parse into dates of
  the calendar.
\<close>

definition run_validation ::
  "bool \<Rightarrow> DischargeSummaryData \<Rightarrow> validation_error + DischargeSummaryData" where
  "run_validation partial data =
     (if \<not> partial \<and> d_patient data = None
      then Inl (ValidationError ''patient'' ''This field is required.'')
      else if \<not> partial \<and> d_hospital data = None
      then Inl (ValidationError ''hospital'' ''This field is required.'')
      else if \<not> partial \<and> d_admission_date data = None
      then Inl (ValidationError ''admission_date'' ''This field is required.'')
      else if \<not> partial \<and> d_discharge_date data = None
      then Inl (ValidationError ''discharge_date'' ''This field is required.'')
      else DischargeSummaryCreateSerializer_validate data)"

text \<open>
  \<^verbatim>\<open>create\<close> builds a new instance from the validated data, the model's defaults
  filling what is absent, and saves it; \<^verbatim>\<open>update\<close> sets each validated field on the
  instance and saves it.
\<close>

definition new_instance :: "DischargeSummaryData \<Rightarrow> DischargeSummary" where
  "new_instance data =
     \<lparr>pk = None, patient = d_patient data, hospital = d_hospital data,
      admission_date = d_admission_date data, discharge_date = d_discharge_date data,
      length_of_stay_days = None,
      follow_up_required = (case d_follow_up_required data of None \<Rightarrow> True | Some b \<Rightarrow> b),
      follow_up_timeframe = (case d_follow_up_timeframe data of None \<Rightarrow> [] | Some t \<Rightarrow> t),
      risk_level = (case d_risk_level data of None \<Rightarrow> ''medium'' | Some l \<Rightarrow> l),
      created_at = None, updated_at = None\<rparr>"

definition set_attributes :: "DischargeSummary \<Rightarrow> DischargeSummaryData \<Rightarrow> DischargeSummary" where
  "set_attributes instance data =
     instance\<lparr>
       patient := (case d_patient data of None \<Rightarrow> patient instance | Some p \<Rightarrow> Some p),
       hospital := (case d_hospital data of None \<Rightarrow> hospital instance | Some h \<Rightarrow> Some h),
       admission_date :=
         (case d_admission_date data of None \<Rightarrow> admission_date instance | Some a \<Rightarrow> Some a),
       discharge_date :=
         (case d_discharge_date data of None \<Rightarrow> discharge_date instance | Some d \<Rightarrow> Some d),
       follow_up_required :=
         (case d_follow_up_required data of None \<Rightarrow> follow_up_required instance | Some b \<Rightarrow> b),
       follow_up_timeframe :=
         (case d_follow_up_timeframe data of None \<Rightarrow> follow_up_timeframe instance | Some t \<Rightarrow> t),
       risk_level := (case d_risk_level data of None \<Rightarrow> risk_level instance | Some l \<Rightarrow> l)\<rparr>"

datatype api_error = BadRequest validation_error | NotFound | ServerError db_error

definition perform_create ::
  "timestamp \<Rightarrow> DischargeSummaryData \<Rightarrow> db \<Rightarrow> api_error + (DischargeSummary \<times> db)" where
  "perform_create now data st =
     (case run_validation False data of
        Inl e \<Rightarrow> Inl (BadRequest e)
      | Inr validated \<Rightarrow>
          (case DischargeSummary_save now (new_instance validated) st of
             Inl e \<Rightarrow> Inl (ServerError e)
           | Inr r \<Rightarrow> Inr r))"

definition perform_update ::
  "bool \<Rightarrow> timestamp \<Rightarrow> nat \<Rightarrow> DischargeSummaryData \<Rightarrow> db \<Rightarrow>
     api_error + (DischargeSummary \<times> db)" where
  "perform_update partial now k data st =
     (case rows st k of
        None \<Rightarrow> Inl NotFound
      | Some row \<Rightarrow>
          (case run_validation partial data of
             Inl e \<Rightarrow> Inl (BadRequest e)
           | Inr validated \<Rightarrow>
               (case DischargeSummary_save now (set_attributes (from_row row) validated) st of
                  Inl e \<Rightarrow> Inl (ServerError e)
                | Inr r \<Rightarrow> Inr r)))"

definition perform_destroy :: "nat \<Rightarrow> db \<Rightarrow> api_error + db" where
  "perform_destroy k st =
     (case rows st k of
        None \<Rightarrow> Inl NotFound
      | Some row \<Rightarrow> Inr (st\<lparr>rows := (rows st)(k := None)\<rparr>))"

text \<open>The states of the table that requests to the view set can produce.\<close>

inductive reachable :: "db \<Rightarrow> bool" where
  reachable_empty: "reachable empty_db"
| reachable_create:
    "reachable st \<Longrightarrow> perform_create now data st = Inr (inst, st') \<Longrightarrow> reachable st'"
| reachable_update:
    "reachable st \<Longrightarrow> perform_update partial now k data st = Inr (inst, st') \<Longrightarrow> reachable st'"
| reachable_destroy:
    "reachable st \<Longrightarrow> perform_destroy k st = Inr st' \<Longrightarrow> reachable st'"

text \<open>The invariant of the table: no row holds a negative length of stay.\<close>

definition rows_non_negative :: "db \<Rightarrow> bool" where
  "rows_non_negative st = (\<forall>k row. rows st k = Some row \<longrightarrow> 0 \<le> row_length_of_stay_days row)"

subsection \<open>Listings\<close>













section \<open>Patients, addresses and emergency contacts\<close>

text \<open>
  Of the patient's columns the model keeps the names, the date of birth, the gender, the
  national identifier (unique), the phone number and the active flag. A coordinate is a
  \<^verbatim>\<open>Decimal\<close> with six decimal places, held as its count of millionths.
\<close>

type_synonym decimal = int

record Patient =
  patient_pk :: nat
  first_name :: string
  last_name :: string
  date_of_birth :: date
  gender :: string
  national_id :: string
  phone_number :: string
  is_active :: bool
  patient_updated_at :: timestamp

text \<open>
  \<^verbatim>\<open>Patient.age\<close> reads the clock (\<^verbatim>\<open>date.today()\<close>); the model takes today's date as
  an argument. Python compares the pairs item by item, the first differing item
  deciding, and subtracts the truth value as 0 or 1.
\<close>

definition pair_less :: "int \<times> int \<Rightarrow> int \<times> int \<Rightarrow> bool" where
  "pair_less x y = (if fst x \<noteq> fst y then fst x < fst y else snd x < snd y)"

definition int_of_bool :: "bool \<Rightarrow> int" where
  "int_of_bool b = (if b then 1 else 0)"

definition Patient_age :: "date \<Rightarrow> Patient \<Rightarrow> int" where
  "Patient_age today self =
     year today - year (date_of_birth self)
       - int_of_bool (pair_less (month today, day today)
                                (month (date_of_birth self), day (date_of_birth self)))"

text \<open>
  The validated data of an address is a dictionary too. The coordinates may be null, so
  for them a key that is absent (\<open>None\<close>) is told from a key that holds null
  (\<open>Some None\<close>); \<^verbatim>\<open>data.get\<close> gives \<^verbatim>\<open>None\<close> for both.
\<close>

definition dict_get :: "'a option option \<Rightarrow> 'a option" where
  "dict_get entry = (case entry of None \<Rightarrow> None | Some v \<Rightarrow> v)"

record AddressData =
  a_province :: "string option"
  a_district :: "string option"
  a_sector :: "string option"
  a_cell :: "string option"
  a_village :: "string option"
  a_latitude :: "decimal option option"
  a_longitude :: "decimal option option"

datatype address_error = NonFieldError string

definition AddressSerializer_validate :: "AddressData \<Rightarrow> address_error + AddressData" where
  "AddressSerializer_validate data =
     (let latitude = dict_get (a_latitude data); longitude = dict_get (a_longitude data) in
      if (latitude \<noteq> None \<and> longitude = None) \<or> (latitude = None \<and> longitude \<noteq> None)
      then Inl (NonFieldError ''Both latitude and longitude must be provided together.'')
      else Inr data)"

record Address =
  address_id :: nat
  address_patient :: nat
  province :: string
  district :: string
  sector :: string
  cell :: string
  village :: string
  latitude :: "decimal option"
  longitude :: "decimal option"

record EmergencyContactData =
  c_full_name :: string
  c_relationship :: string
  c_phone_number :: string
  c_alt_phone_number :: "string option"
  c_is_primary :: "bool option"

record EmergencyContact =
  contact_id :: nat
  contact_patient :: nat
  full_name :: string
  relationship :: string
  contact_phone_number :: string
  contact_alt_phone_number :: string
  is_primary :: bool
  contact_created_at :: timestamp

record PatientData =
  v_first_name :: "string option"
  v_last_name :: "string option"
  v_date_of_birth :: "date option"
  v_gender :: "string option"
  v_national_id :: "string option"
  v_phone_number :: "string option"
  v_is_active :: "bool option"
  v_address :: "AddressData option"
  v_emergency_contacts :: "EmergencyContactData list option"

record patient_db =
  patients :: "Patient list"
  addresses :: "Address list"
  emergency_contacts :: "EmergencyContact list"
  next_address_id :: nat
  next_contact_id :: nat

text \<open>
  \<^verbatim>\<open>for attr, value in validated_data.items(): setattr(instance, attr, value)\<close>, after
  the two nested keys were popped.
\<close>

definition Patient_set_attributes :: "Patient \<Rightarrow> PatientData \<Rightarrow> Patient" where
  "Patient_set_attributes instance data =
     instance\<lparr>
       first_name := (case v_first_name data of None \<Rightarrow> first_name instance | Some x \<Rightarrow> x),
       last_name := (case v_last_name data of None \<Rightarrow> last_name instance | Some x \<Rightarrow> x),
       date_of_birth :=
         (case v_date_of_birth data of None \<Rightarrow> date_of_birth instance | Some x \<Rightarrow> x),
       gender := (case v_gender data of None \<Rightarrow> gender instance | Some x \<Rightarrow> x),
       national_id := (case v_national_id data of None \<Rightarrow> national_id instance | Some x \<Rightarrow> x),
       phone_number := (case v_phone_number data of None \<Rightarrow> phone_number instance | Some x \<Rightarrow> x),
       is_active := (case v_is_active data of None \<Rightarrow> is_active instance | Some x \<Rightarrow> x)\<rparr>"

text \<open>
  \<^verbatim>\<open>instance.save()\<close> writes the patient's row; the unique national identifier makes
  the write fail when another patient holds the same one.
\<close>

definition Patient_save :: "timestamp \<Rightarrow> Patient \<Rightarrow> patient_db \<Rightarrow> db_error + patient_db" where
  "Patient_save now self st =
     (if list_ex (\<lambda>q. patient_pk q \<noteq> patient_pk self \<and> national_id q = national_id self)
           (patients st)
      then Inl IntegrityError
      else
        (let row = self\<lparr>patient_updated_at := now\<rparr> in
         if list_ex (\<lambda>q. patient_pk q = patient_pk self) (patients st)
         then Inr (st\<lparr>patients :=
                     map (\<lambda>q. if patient_pk q = patient_pk self then row else q) (patients st)\<rparr>)
         else Inr (st\<lparr>patients := patients st @ [row]\<rparr>)))"

definition Address_set_attributes :: "Address \<Rightarrow> AddressData \<Rightarrow> Address" where
  "Address_set_attributes address data =
     address\<lparr>
       province := (case a_province data of None \<Rightarrow> province address | Some x \<Rightarrow> x),
       district := (case a_district data of None \<Rightarrow> district address | Some x \<Rightarrow> x),
       sector := (case a_sector data of None \<Rightarrow> sector address | Some x \<Rightarrow> x),
       cell := (case a_cell data of None \<Rightarrow> cell address | Some x \<Rightarrow> x),
       village := (case a_village data of None \<Rightarrow> village address | Some x \<Rightarrow> x),
       latitude := (case a_latitude data of None \<Rightarrow> latitude address | Some x \<Rightarrow> x),
       longitude := (case a_longitude data of None \<Rightarrow> longitude address | Some x \<Rightarrow> x)\<rparr>"

definition Address_create :: "nat \<Rightarrow> AddressData \<Rightarrow> patient_db \<Rightarrow> patient_db" where
  "Address_create pid data st =
     st\<lparr>addresses := addresses st @
           [\<lparr>address_id = next_address_id st, address_patient = pid,
             province = (case a_province data of None \<Rightarrow> [] | Some x \<Rightarrow> x),
             district = (case a_district data of None \<Rightarrow> [] | Some x \<Rightarrow> x),
             sector = (case a_sector data of None \<Rightarrow> [] | Some x \<Rightarrow> x),
             cell = (case a_cell data of None \<Rightarrow> [] | Some x \<Rightarrow> x),
             village = (case a_village data of None \<Rightarrow> [] | Some x \<Rightarrow> x),
             latitude = dict_get (a_latitude data),
             longitude = dict_get (a_longitude data)\<rparr>],
        next_address_id := Suc (next_address_id st)\<rparr>"

definition update_or_create_address :: "nat \<Rightarrow> AddressData \<Rightarrow> patient_db \<Rightarrow> patient_db" where
  "update_or_create_address pid data st =
     (if list_ex (\<lambda>a. address_patient a = pid) (addresses st)
      then st\<lparr>addresses :=
                map (\<lambda>a. if address_patient a = pid then Address_set_attributes a data else a)
                    (addresses st)\<rparr>
      else Address_create pid data st)"

text \<open>
  \<^verbatim>\<open>EmergencyContact.objects.create(patient=instance, **contact_data)\<close>: a new row under
  the next key of the sequence, which is never handed out again.
\<close>

definition EmergencyContact_create ::
  "timestamp \<Rightarrow> nat \<Rightarrow> nat \<Rightarrow> EmergencyContactData \<Rightarrow> EmergencyContact" where
  "EmergencyContact_create now pid k data =
     \<lparr>contact_id = k, contact_patient = pid,
      full_name = c_full_name data, relationship = c_relationship data,
      contact_phone_number = c_phone_number data,
      contact_alt_phone_number = (case c_alt_phone_number data of None \<Rightarrow> [] | Some x \<Rightarrow> x),
      is_primary = (case c_is_primary data of None \<Rightarrow> False | Some b \<Rightarrow> b),
      contact_created_at = now\<rparr>"

fun create_contacts ::
  "timestamp \<Rightarrow> nat \<Rightarrow> EmergencyContactData list \<Rightarrow> patient_db \<Rightarrow> patient_db" where
  "create_contacts now pid [] st = st"
| "create_contacts now pid (c # cs) st =
     create_contacts now pid cs
       (st\<lparr>emergency_contacts :=
              emergency_contacts st @ [EmergencyContact_create now pid (next_contact_id st) c],
           next_contact_id := Suc (next_contact_id st)\<rparr>)"

definition delete_contacts :: "nat \<Rightarrow> patient_db \<Rightarrow> patient_db" where
  "delete_contacts pid st =
     st\<lparr>emergency_contacts := filter (\<lambda>c. contact_patient c \<noteq> pid) (emergency_contacts st)\<rparr>"

definition PatientDetailSerializer_update ::
  "timestamp \<Rightarrow> Patient \<Rightarrow> PatientData \<Rightarrow> patient_db \<Rightarrow> db_error + (Patient \<times> patient_db)" where
  "PatientDetailSerializer_update now instance validated_data st =
     (let address_data = v_address validated_data;
          emergency_contacts_data = v_emergency_contacts validated_data;
          instance' = Patient_set_attributes instance validated_data
      in case Patient_save now instance' st of
           Inl e \<Rightarrow> Inl e
         | Inr st1 \<Rightarrow>
             (let st2 = (case address_data of
                           None \<Rightarrow> st1
                         | Some a \<Rightarrow> update_or_create_address (patient_pk instance') a st1);
                  st3 = (case emergency_contacts_data of
                           None \<Rightarrow> st2
                         | Some cs \<Rightarrow>
                             create_contacts now (patient_pk instance') cs
                               (delete_contacts (patient_pk instance') st2))
              in Inr (instance', st3)))"

definition contacts_of :: "nat \<Rightarrow> patient_db \<Rightarrow> EmergencyContact list" where
  "contacts_of pid st = filter (\<lambda>c. contact_patient c = pid) (emergency_contacts st)"

text \<open>The rows that creating the contacts of a payload adds, keys counted from \<open>k\<close>.\<close>

fun new_contacts :: "timestamp \<Rightarrow> nat \<Rightarrow> nat \<Rightarrow> EmergencyContactData list \<Rightarrow> EmergencyContact list" where
  "new_contacts now pid k [] = []"
| "new_contacts now pid k (c # cs) =
     EmergencyContact_create now pid k c # new_contacts now pid (Suc k) cs"

section \<open>Example records\<close>

text \<open>A summary as the model's tests create it: admitted on 1 January 2026, discharged on the 10th.\<close>

definition example_summary :: DischargeSummary where
  "example_summary =
     \<lparr>pk = None, patient = Some 1, hospital = Some 1,
      admission_date = Some (mk_date 2026 1 1), discharge_date = Some (mk_date 2026 1 10),
      length_of_stay_days = None, follow_up_required = True, follow_up_timeframe = ''1 week'',
      risk_level = ''medium'', created_at = None, updated_at = None\<rparr>"

definition example_data :: DischargeSummaryData where
  "example_data =
     \<lparr>d_patient = Some 1, d_hospital = Some 1,
      d_admission_date = Some (mk_date 2026 1 1), d_discharge_date = Some (mk_date 2026 1 10),
      d_follow_up_required = Some True, d_follow_up_timeframe = Some ''1 week'',
      d_risk_level = None\<rparr>"




definition patch_discharge_date :: DischargeSummaryData where
  "patch_discharge_date =
     \<lparr>d_patient = None, d_hospital = None, d_admission_date = None,
      d_discharge_date = Some (mk_date 2025 12 25), d_follow_up_required = None,
      d_follow_up_timeframe = None, d_risk_level = None\<rparr>"

definition example_row :: DischargeSummaryRow where
  "example_row =
     \<lparr>row_id = 1, row_patient = 1, row_hospital = 1,
      row_admission_date = mk_date 2026 1 1, row_discharge_date = mk_date 2026 1 10,
      row_length_of_stay_days = 9, row_follow_up_required = True,
      row_follow_up_timeframe = ''1 week'', row_risk_level = ''medium'',
      row_created_at = 100, row_updated_at = 100\<rparr>"

definition example_db :: db where
  "example_db = \<lparr>rows = [1 \<mapsto> example_row], next_id = 2\<rparr>"

definition example_patient :: Patient where
  "example_patient =
     \<lparr>patient_pk = 1, first_name = ''Jean'', last_name = ''Uwimana'',
      date_of_birth = mk_date 2027 1 1, gender = ''M'',
      national_id = ''1199012345678901'', phone_number = ''+250788123456'',
      is_active = True, patient_updated_at = 0\<rparr>"

definition example_address_data :: AddressData where
  "example_address_data =
     \<lparr>a_province = Some ''Kigali'', a_district = Some ''Gasabo'', a_sector = Some ''Remera'',
      a_cell = Some ''Rukiri'', a_village = Some ''Kibagabaga'',
      a_latitude = Some (Some (- 1957800)), a_longitude = None\<rparr>"



definition contact_of_jean :: EmergencyContact where
  "contact_of_jean =
     \<lparr>contact_id = 1, contact_patient = 1, full_name = ''Marie Uwimana'',
      relationship = ''spouse'', contact_phone_number = ''+250788000001'',
      contact_alt_phone_number = [], is_primary = True, contact_created_at = 10\<rparr>"

definition contact_of_other :: EmergencyContact where
  "contact_of_other =
     \<lparr>contact_id = 2, contact_patient = 2, full_name = ''Paul Mugisha'',
      relationship = ''sibling'', contact_phone_number = ''+250788000002'',
      contact_alt_phone_number = [], is_primary = False, contact_created_at = 20\<rparr>"

definition enrolled_patient :: Patient where
  "enrolled_patient =
     \<lparr>patient_pk = 1, first_name = ''Jean'', last_name = ''Uwimana'',
      date_of_birth = mk_date 1990 5 15, gender = ''M'',
      national_id = ''1199012345678901'', phone_number = ''+250788123456'',
      is_active = True, patient_updated_at = 0\<rparr>"

definition example_patient_db :: patient_db where
  "example_patient_db =
     \<lparr>patients = [enrolled_patient], addresses = [],
      emergency_contacts = [contact_of_jean, contact_of_other],
      next_address_id = 1, next_contact_id = 3\<rparr>"

definition new_contact_data :: EmergencyContactData where
  "new_contact_data =
     \<lparr>c_full_name = ''Alice Uwimana'', c_relationship = ''child'',
      c_phone_number = ''+250788000003'', c_alt_phone_number = None, c_is_primary = None\<rparr>"

definition payload_with_contacts :: PatientData where
  "payload_with_contacts =
     \<lparr>v_first_name = None, v_last_name = None, v_date_of_birth = None, v_gender = None,
      v_national_id = None, v_phone_number = Some ''+250788999999'', v_is_active = None,
      v_address = None, v_emergency_contacts = Some [new_contact_data]\<rparr>"

section \<open>Properties of the calendar\<close>

text \<open>
  The ordinal is strictly monotone on the dates of the calendar, so the sign of a
  difference in days agrees with the comparison of the dates.
\<close>

lemma div_pred:
  fixes y k :: int
  assumes "0 < k"
  shows "y div k = (y - 1) div k + (if y mod k = 0 then 1 else 0)"
proof (cases "y mod k = 0")
  case True
  have "y = k * (y div k) + y mod k" by simp
  with True have "y = k * (y div k)" by simp
  then have "y - 1 = k * (y div k - 1) + (k - 1)"
    by (simp add: algebra_simps) 
  then have "(y - 1) div k = y div k - 1"
    using assms int_div_pos_eq [of "y - 1" k "y div k - 1" "k - 1"] by simp
  with True show ?thesis by simp
next
  case False
  have "0 \<le> y mod k" "y mod k < k"
    using assms by simp_all
  with False have r: "0 < y mod k" "y mod k < k" by simp_all
  have "y - 1 = k * (y div k) + (y mod k - 1)"
    by (simp add: algebra_simps)
  then have "(y - 1) div k = y div k"
    using r int_div_pos_eq [of "y - 1" k "y div k" "y mod k - 1"] by simp
  with False show ?thesis by simp
qed

lemma mod_400_100: "(y::int) mod 400 = 0 \<Longrightarrow> y mod 100 = 0"
proof -
  assume "y mod 400 = 0"
  then have "400 dvd y" by (simp add: mod_eq_0_iff_dvd)
  moreover have "(100::int) dvd 400" by simp
  ultimately have "100 dvd y" by (rule dvd_trans [rotated])
  then show ?thesis by (simp add: mod_eq_0_iff_dvd)
qed

lemma mod_100_4: "(y::int) mod 100 = 0 \<Longrightarrow> y mod 4 = 0"
proof -
  assume "y mod 100 = 0"
  then have "100 dvd y" by (simp add: mod_eq_0_iff_dvd)
  moreover have "(4::int) dvd 100" by simp
  ultimately have "4 dvd y" by (rule dvd_trans [rotated])
  then show ?thesis by (simp add: mod_eq_0_iff_dvd)
qed

lemma leap_arith:
  fixes y q4 q100 q400 :: int and p4 p100 p400 :: bool
  assumes "p400 \<longrightarrow> p100" "p100 \<longrightarrow> p4"
  shows "y * 365 + (q4 + (if p4 then 1 else 0)) - (q100 + (if p100 then 1 else 0))
           + (q400 + (if p400 then 1 else 0))
         = (y - 1) * 365 + q4 - q100 + q400 + (if p4 \<and> (\<not> p100 \<or> p400) then 366 else 365)"
  using assms by (cases p4; cases p100; cases p400) (simp_all add: algebra_simps)

lemma days_before_year_step:
  "days_before_year (y + 1) = days_before_year y + (if is_leap y then 366 else 365)"
proof -
  have a: "y div 4 = (y - 1) div 4 + (if y mod 4 = 0 then 1 else 0)"
    by (rule div_pred) simp
  have b: "y div 100 = (y - 1) div 100 + (if y mod 100 = 0 then 1 else 0)"
    by (rule div_pred) simp
  have c: "y div 400 = (y - 1) div 400 + (if y mod 400 = 0 then 1 else 0)"
    by (rule div_pred) simp
  have l: "days_before_year (y + 1) = y * 365 + y div 4 - y div 100 + y div 400"
    by (simp add: days_before_year_def Let_def)
  have r: "days_before_year y = (y - 1) * 365 + (y - 1) div 4 - (y - 1) div 100 + (y - 1) div 400"
    by (simp add: days_before_year_def Let_def)
  have d: "y mod 400 = 0 \<longrightarrow> y mod 100 = 0" using mod_400_100 [of y] by blast
  have e: "y mod 100 = 0 \<longrightarrow> y mod 4 = 0" using mod_100_4 [of y] by blast
  have "days_before_year (y + 1) =
      y * 365 + ((y - 1) div 4 + (if y mod 4 = 0 then 1 else 0))
        - ((y - 1) div 100 + (if y mod 100 = 0 then 1 else 0))
        + ((y - 1) div 400 + (if y mod 400 = 0 then 1 else 0))"
    using l a b c by (simp only:)
  also have "\<dots> = (y - 1) * 365 + (y - 1) div 4 - (y - 1) div 100 + (y - 1) div 400
      + (if y mod 4 = 0 \<and> (\<not> y mod 100 = 0 \<or> y mod 400 = 0) then 366 else 365)"
    by (rule leap_arith [OF d e])
  also have "\<dots> = days_before_year y + (if is_leap y then 366 else 365)"
    unfolding r is_leap_def by (rule refl)
  finally show ?thesis .
qed

lemma days_before_year_mono:
  assumes "y1 < y2"
  shows "days_before_year (y1 + 1) \<le> days_before_year y2"
proof -
  have "days_before_year (y1 + 1) \<le> days_before_year (y1 + 1 + int k)" for k
  proof (induction k)
    case 0 show ?case by simp
  next
    case (Suc k)
    have "days_before_year (y1 + 1 + int k) \<le> days_before_year ((y1 + 1 + int k) + 1)"
      unfolding days_before_year_step [of "y1 + 1 + int k"] by simp
    moreover have "y1 + 1 + int (Suc k) = (y1 + 1 + int k) + 1" by simp
    ultimately show ?case using Suc by (simp only:) 
  qed
  from this [of "nat (y2 - y1 - 1)"] assms show ?thesis by simp
qed

lemma month_cases:
  "1 \<le> (m::int) \<Longrightarrow> m \<le> 12 \<Longrightarrow>
   m = 1 \<or> m = 2 \<or> m = 3 \<or> m = 4 \<or> m = 5 \<or> m = 6 \<or>
   m = 7 \<or> m = 8 \<or> m = 9 \<or> m = 10 \<or> m = 11 \<or> m = 12"
  by presburger

lemma days_before_month_values:
  "days_before_month y 1 = 0"
  "days_before_month y 2 = 31"
  "days_before_month y 3 = 59 + (if is_leap y then 1 else 0)"
  "days_before_month y 4 = 90 + (if is_leap y then 1 else 0)"
  "days_before_month y 5 = 120 + (if is_leap y then 1 else 0)"
  "days_before_month y 6 = 151 + (if is_leap y then 1 else 0)"
  "days_before_month y 7 = 181 + (if is_leap y then 1 else 0)"
  "days_before_month y 8 = 212 + (if is_leap y then 1 else 0)"
  "days_before_month y 9 = 243 + (if is_leap y then 1 else 0)"
  "days_before_month y 10 = 273 + (if is_leap y then 1 else 0)"
  "days_before_month y 11 = 304 + (if is_leap y then 1 else 0)"
  "days_before_month y 12 = 334 + (if is_leap y then 1 else 0)"
  by (simp_all add: days_before_month_def DAYS_BEFORE_MONTH_def)

lemma days_in_month_values:
  "days_in_month y 1 = 31"
  "days_in_month y 2 = (if is_leap y then 29 else 28)"
  "days_in_month y 3 = 31"
  "days_in_month y 4 = 30"
  "days_in_month y 5 = 31"
  "days_in_month y 6 = 30"
  "days_in_month y 7 = 31"
  "days_in_month y 8 = 31"
  "days_in_month y 9 = 30"
  "days_in_month y 10 = 31"
  "days_in_month y 11 = 30"
  "days_in_month y 12 = 31"
  by (simp_all add: days_in_month_def DAYS_IN_MONTH_def)

lemma month_end_le_year_end:
  assumes "1 \<le> m" "m \<le> 12"
  shows "days_before_month y m + days_in_month y m \<le> (if is_leap y then 366 else 365)"
  using month_cases [OF assms]
  by (elim disjE) (simp_all add: days_before_month_values days_in_month_values)

lemma days_before_month_nonneg:
  assumes "1 \<le> m" "m \<le> 12"
  shows "0 \<le> days_before_month y m"
  using month_cases [OF assms]
  by (elim disjE) (simp_all add: days_before_month_values)

lemma month_end_le_next_start:
  assumes "1 \<le> m1" "m1 < m2" "m2 \<le> 12"
  shows "days_before_month y m1 + days_in_month y m1 \<le> days_before_month y m2"
proof -
  have c1: "m1 = 1 \<or> m1 = 2 \<or> m1 = 3 \<or> m1 = 4 \<or> m1 = 5 \<or> m1 = 6 \<or>
   m1 = 7 \<or> m1 = 8 \<or> m1 = 9 \<or> m1 = 10 \<or> m1 = 11 \<or> m1 = 12"
    using assms by (intro month_cases) simp_all
  have c2: "m2 = 1 \<or> m2 = 2 \<or> m2 = 3 \<or> m2 = 4 \<or> m2 = 5 \<or> m2 = 6 \<or>
   m2 = 7 \<or> m2 = 8 \<or> m2 = 9 \<or> m2 = 10 \<or> m2 = 11 \<or> m2 = 12"
    using assms by (intro month_cases) simp_all
  from c2 show ?thesis
  proof (elim disjE)
  qed (use c1 assms(2) in \<open>auto simp: days_before_month_values days_in_month_values\<close>)
qed

lemma toordinal_bounds:
  assumes "valid_date d"
  shows "days_before_year (year d) < toordinal d"
    and "toordinal d \<le> days_before_year (year d + 1)"
proof -
  from assms have m: "1 \<le> month d" "month d \<le> 12"
    and dd: "1 \<le> day d" "day d \<le> days_in_month (year d) (month d)"
    by (simp_all add: valid_date_def)
  from days_before_month_nonneg [OF m, of "year d"] dd(1)
  show "days_before_year (year d) < toordinal d"
    by (simp add: toordinal_def ymd2ord_def)
  from month_end_le_year_end [OF m, of "year d"] dd(2)
  show "toordinal d \<le> days_before_year (year d + 1)"
    unfolding days_before_year_step toordinal_def ymd2ord_def by linarith
qed

lemma toordinal_strict_mono:
  assumes va: "valid_date a" and vb: "valid_date b" and lt: "date_less a b"
  shows "toordinal a < toordinal b"
proof -
  consider (y) "year a < year b"
    | (m) "year a = year b" "month a < month b"
    | (d) "year a = year b" "month a = month b" "day a < day b"
    using lt by (auto simp: date_less_def)
  then show ?thesis
  proof cases
    case y
    have "toordinal a \<le> days_before_year (year a + 1)" by (rule toordinal_bounds(2) [OF va])
    also have "\<dots> \<le> days_before_year (year b)" by (rule days_before_year_mono [OF y])
    also have "\<dots> < toordinal b" by (rule toordinal_bounds(1) [OF vb])
    finally show ?thesis .
  next
    case m
    from va have "1 \<le> month a" "day a \<le> days_in_month (year a) (month a)"
      by (simp_all add: valid_date_def)
    moreover from vb have "month b \<le> 12" "1 \<le> day b" by (simp_all add: valid_date_def)
    moreover note month_end_le_next_start [of "month a" "month b" "year a"] m
    ultimately show ?thesis by (simp add: toordinal_def ymd2ord_def)
  next
    case d
    then show ?thesis by (simp add: toordinal_def ymd2ord_def)
  qed
qed

lemma date_less_iff_toordinal:
  assumes va: "valid_date a" and vb: "valid_date b"
  shows "date_less a b \<longleftrightarrow> toordinal a < toordinal b"
proof
  assume "date_less a b"
  then show "toordinal a < toordinal b" by (rule toordinal_strict_mono [OF va vb])
next
  assume lt: "toordinal a < toordinal b"
  show "date_less a b"
  proof (rule ccontr)
    assume n: "\<not> date_less a b"
    then have "date_less b a \<or> (year a = year b \<and> month a = month b \<and> day a = day b)"
      unfolding date_less_def by linarith
    then consider "date_less b a" | "year a = year b \<and> month a = month b \<and> day a = day b"
      by blast
    then show False
    proof cases
      case 1
      from toordinal_strict_mono [OF vb va 1] lt show False by simp
    next
      case 2
      then have "toordinal a = toordinal b" by (simp add: toordinal_def)
      with lt show False by simp
    qed
  qed
qed

section \<open>Saving a discharge summary\<close>

lemma date_sub_days_self: "date_sub_days a a = 0"
  by (simp add: date_sub_days_def)

lemma toordinal_mk_date:
  "toordinal (mk_date y m d) = days_before_year y + days_before_month y m + d"
  by (simp add: toordinal_def ymd2ord_def mk_date_def)

lemma date_sub_days_jan_2026: "date_sub_days (mk_date 2026 1 10) (mk_date 2026 1 1) = 9"
  by (simp add: date_sub_days_def toordinal_mk_date days_before_month_values)

lemma date_sub_days_neg_iff:
  assumes "valid_date a" "valid_date d"
  shows "date_sub_days d a < 0 \<longleftrightarrow> date_less d a"
  using date_less_iff_toordinal [OF assms(2) assms(1)] by (simp add: date_sub_days_def)

lemma Model_save_Inr:
  assumes "Model_save now self st = Inr (self', st')"
  shows "\<exists>k row. pk self' = Some k \<and> to_row self' = Some row \<and> rows st' k = Some row \<and>
           0 \<le> row_length_of_stay_days row \<and>
           length_of_stay_days self' = length_of_stay_days self \<and>
           admission_date self' = admission_date self \<and>
           discharge_date self' = discharge_date self \<and>
           (\<forall>j. j \<noteq> k \<longrightarrow> rows st' j = rows st j)"
  using assms
  by (auto simp: Model_save_def Let_def split: option.splits if_splits)

lemma to_row_fields:
  assumes "to_row self = Some row"
  shows "pk self = Some (row_id row)"
    and "admission_date self = Some (row_admission_date row)"
    and "discharge_date self = Some (row_discharge_date row)"
    and "length_of_stay_days self = Some (row_length_of_stay_days row)"
  using assms by (auto simp: to_row_def split: option.splits)

lemma save_length_of_stay_dates:
  "admission_date (save_length_of_stay self) = admission_date self"
  "discharge_date (save_length_of_stay self) = discharge_date self"
  "pk (save_length_of_stay self) = pk self"
  by (simp_all add: save_length_of_stay_def split: option.splits)

lemma save_length_of_stay_value:
  assumes "admission_date self = Some a" "discharge_date self = Some d"
  shows "length_of_stay_days (save_length_of_stay self) = Some (date_sub_days d a)"
  using assms by (simp add: save_length_of_stay_def)

lemma save_Inr:
  assumes "DischargeSummary_save now self st = Inr (self', st')"
    and "admission_date self = Some a" "discharge_date self = Some d"
  shows "length_of_stay_days self' = Some (date_sub_days d a)"
    and "\<exists>k row. pk self' = Some k \<and> rows st' k = Some row \<and>
           row_length_of_stay_days row = date_sub_days d a \<and>
           row_admission_date row = a \<and> row_discharge_date row = d"
proof -
  from assms(1) have "Model_save now (save_length_of_stay self) st = Inr (self', st')"
    by (simp add: DischargeSummary_save_def)
  from Model_save_Inr [OF this] obtain k row where
    k: "pk self' = Some k" "to_row self' = Some row" "rows st' k = Some row"
    and l: "length_of_stay_days self' = length_of_stay_days (save_length_of_stay self)"
    and a: "admission_date self' = admission_date (save_length_of_stay self)"
    and d: "discharge_date self' = discharge_date (save_length_of_stay self)"
    by blast
  from l show los: "length_of_stay_days self' = Some (date_sub_days d a)"
    by (simp add: save_length_of_stay_value [OF assms(2,3)])
  from to_row_fields [OF k(2)] los a d assms(2,3) k
  show "\<exists>k row. pk self' = Some k \<and> rows st' k = Some row \<and>
           row_length_of_stay_days row = date_sub_days d a \<and>
           row_admission_date row = a \<and> row_discharge_date row = d"
    by (simp add: save_length_of_stay_dates)
qed

lemma save_new_succeeds:
  assumes "pk self = None" "patient self = Some p" "hospital self = Some h"
    and "admission_date self = Some a" "discharge_date self = Some d"
    and "0 \<le> date_sub_days d a"
  shows "\<exists>self' st'. DischargeSummary_save now self st = Inr (self', st')"
  using assms
  by (simp add: DischargeSummary_save_def Model_save_def Let_def save_length_of_stay_def to_row_def)

lemma save_existing_succeeds:
  assumes "0 \<le> date_sub_days d2 a2"
  shows "\<exists>s2 st2 row2.
           DischargeSummary_save now ((from_row row)\<lparr>admission_date := Some a2, discharge_date := Some d2\<rparr>) st
             = Inr (s2, st2) \<and>
           rows st2 (row_id row) = Some row2 \<and>
           row_length_of_stay_days row2 = date_sub_days d2 a2"
  using assms
  by (simp add: DischargeSummary_save_def Model_save_def Let_def save_length_of_stay_def
        to_row_def from_row_def)

lemma example_summary_saved:
  "DischargeSummary_save 100 example_summary empty_db =
     Inr (example_summary\<lparr>pk := Some 1, length_of_stay_days := Some 9,
                          created_at := Some 100, updated_at := Some 100\<rparr>,
          \<lparr>rows = [1 \<mapsto> \<lparr>row_id = 1, row_patient = 1, row_hospital = 1,
                           row_admission_date = mk_date 2026 1 1,
                           row_discharge_date = mk_date 2026 1 10,
                           row_length_of_stay_days = 9,
                           row_follow_up_required = True,
                           row_follow_up_timeframe = ''1 week'',
                           row_risk_level = ''medium'',
                           row_created_at = 100, row_updated_at = 100\<rparr>],
           next_id = 2\<rparr>)"
  by (simp add: DischargeSummary_save_def Model_save_def Let_def save_length_of_stay_def
        to_row_def example_summary_def empty_db_def date_sub_days_jan_2026)

subsection \<open>Saving twice\<close>

lemma save_length_of_stay_idem:
  "save_length_of_stay (save_length_of_stay self) = save_length_of_stay self"
  by (simp add: save_length_of_stay_def split: option.splits)

lemma Model_save_again:
  assumes "Model_save t1 self st = Inr (s1, st1)"
  shows "\<exists>k row1 s2 st2 row2.
           pk s1 = Some k \<and> rows st1 k = Some row1 \<and>
           Model_save t2 s1 st1 = Inr (s2, st2) \<and> rows st2 k = Some row2 \<and>
           length_of_stay_days s2 = length_of_stay_days s1 \<and>
           row_length_of_stay_days row2 = row_length_of_stay_days row1"
  using assms
  by (auto simp: Model_save_def Let_def to_row_def split: option.splits if_splits)

lemma saved_is_derived:
  assumes "DischargeSummary_save t1 self st = Inr (s1, st1)"
  shows "save_length_of_stay s1 = s1"
proof -
  from assms have m: "Model_save t1 (save_length_of_stay self) st = Inr (s1, st1)"
    by (simp add: DischargeSummary_save_def)
  from Model_save_Inr [OF m] obtain row where r: "to_row s1 = Some row"
    and l: "length_of_stay_days s1 = length_of_stay_days (save_length_of_stay self)"
    and a: "admission_date s1 = admission_date (save_length_of_stay self)"
    and d: "discharge_date s1 = discharge_date (save_length_of_stay self)"
    by blast
  from to_row_fields [OF r] a d
  have a': "admission_date self = Some (row_admission_date row)"
    and d': "discharge_date self = Some (row_discharge_date row)"
    by (simp_all add: save_length_of_stay_dates)
  from l save_length_of_stay_value [OF a' d']
  have "length_of_stay_days s1 =
          Some (date_sub_days (row_discharge_date row) (row_admission_date row))"
    by simp
  with to_row_fields(2,3) [OF r] show ?thesis
    by (simp add: save_length_of_stay_def)
qed

lemma valid_date_examples:
  "valid_date (mk_date 2026 1 1)" "valid_date (mk_date 2026 1 5)" "valid_date (mk_date 2026 1 10)"
  by (simp_all add: valid_date_def mk_date_def days_in_month_values)

lemma date_sub_days_jan_2026_backwards: "date_sub_days (mk_date 2026 1 5) (mk_date 2026 1 10) = - 5"
  by (simp add: date_sub_days_def toordinal_mk_date days_before_month_values)

section \<open>Validation of a discharge summary\<close>


lemma date_less_examples:
  "\<not> date_less (mk_date 2026 1 10) (mk_date 2026 1 1)"
  "date_less (mk_date 2026 1 5) (mk_date 2026 1 10)"
  by (simp_all add: date_less_def mk_date_def)

lemma follow_up_violation_always_fails:
  assumes "d_follow_up_required data = Some True"
    and "d_follow_up_timeframe data = None \<or> d_follow_up_timeframe data = Some []"
  shows "\<exists>e. DischargeSummaryCreateSerializer_validate data = Inl e"
  using assms by (auto simp: DischargeSummaryCreateSerializer_validate_def)

section \<open>The invariant of the table\<close>

lemma DischargeSummary_save_Inr_row:
  assumes "DischargeSummary_save now self st = Inr (inst, st')"
  shows "\<exists>k row. pk inst = Some k \<and> rows st' k = Some row \<and>
           length_of_stay_days inst = Some (row_length_of_stay_days row) \<and>
           0 \<le> row_length_of_stay_days row \<and>
           (\<forall>j. j \<noteq> k \<longrightarrow> rows st' j = rows st j)"
proof -
  from assms have "Model_save now (save_length_of_stay self) st = Inr (inst, st')"
    by (simp add: DischargeSummary_save_def)
  from Model_save_Inr [OF this] obtain k row where
    "pk inst = Some k" "to_row inst = Some row" "rows st' k = Some row"
    "0 \<le> row_length_of_stay_days row" "\<forall>j. j \<noteq> k \<longrightarrow> rows st' j = rows st j"
    by blast
  with to_row_fields(4) [of inst row] show ?thesis by blast
qed

lemma perform_create_Inr:
  assumes "perform_create now data st = Inr (inst, st')"
  shows "\<exists>validated. run_validation False data = Inr validated \<and>
           DischargeSummary_save now (new_instance validated) st = Inr (inst, st')"
  using assms by (auto simp: perform_create_def split: sum.splits)

lemma perform_update_Inr:
  assumes "perform_update partial now k data st = Inr (inst, st')"
  shows "\<exists>row validated. rows st k = Some row \<and> run_validation partial data = Inr validated \<and>
           DischargeSummary_save now (set_attributes (from_row row) validated) st = Inr (inst, st')"
  using assms by (auto simp: perform_update_def split: sum.splits option.splits)

lemma save_keeps_rows_non_negative:
  assumes "DischargeSummary_save now self st = Inr (inst, st')" and "rows_non_negative st"
  shows "rows_non_negative st'"
proof -
  from DischargeSummary_save_Inr_row [OF assms(1)] obtain k row where
    k: "rows st' k = Some row" "0 \<le> row_length_of_stay_days row"
    and o: "\<forall>j. j \<noteq> k \<longrightarrow> rows st' j = rows st j"
    by blast
  show ?thesis
    unfolding rows_non_negative_def
  proof (intro allI impI)
    fix j r
    assume r: "rows st' j = Some r"
    show "0 \<le> row_length_of_stay_days r"
    proof (cases "j = k")
      case True
      with k r show ?thesis by simp
    next
      case False
      with o r have "rows st j = Some r" by simp
      with assms(2) show ?thesis by (simp add: rows_non_negative_def)
    qed
  qed
qed

lemma reachable_rows_non_negative:
  assumes "reachable st"
  shows "rows_non_negative st"
  using assms
proof (induction rule: reachable.induct)
  case reachable_empty
  show ?case by (simp add: rows_non_negative_def empty_db_def)
next
  case (reachable_create st now data inst st')
  from perform_create_Inr [OF reachable_create(2)] save_keeps_rows_non_negative reachable_create(3)
  show ?case by blast
next
  case (reachable_update st partial now k data inst st')
  from perform_update_Inr [OF reachable_update(2)] save_keeps_rows_non_negative reachable_update(3)
  show ?case by blast
next
  case (reachable_destroy st k st')
  then show ?case
    by (auto simp: perform_destroy_def rows_non_negative_def split: option.splits if_splits)
qed

lemma run_validation_full_dates:
  assumes "run_validation False data = Inr validated"
  shows "validated = data \<and>
         (\<exists>a d. d_admission_date data = Some a \<and> d_discharge_date data = Some d \<and>
                 \<not> date_less d a)"
  using assms
  by (auto simp: run_validation_def DischargeSummaryCreateSerializer_validate_def
        split: if_splits option.splits)

lemma validated_full_payload_non_negative:
  assumes "run_validation False data = Inr validated"
    and "d_admission_date validated = Some a" and "d_discharge_date validated = Some d"
    and "valid_date a" and "valid_date d"
  shows "0 \<le> date_sub_days d a"
proof -
  from run_validation_full_dates [OF assms(1)] assms(2,3) have "\<not> date_less d a" by auto
  with date_sub_days_neg_iff [OF assms(4,5)] show ?thesis by simp
qed

lemma example_created:
  "perform_create 100 example_data empty_db = Inr (from_row example_row, example_db)"
  by (simp add: perform_create_def run_validation_def
        DischargeSummaryCreateSerializer_validate_def example_data_def new_instance_def
        DischargeSummary_save_def Model_save_def Let_def save_length_of_stay_def to_row_def
        empty_db_def example_db_def example_row_def from_row_def date_less_examples
        date_sub_days_jan_2026)

lemma date_sub_days_dec_2025: "date_sub_days (mk_date 2025 12 25) (mk_date 2026 1 1) = - 7"
  by (simp add: date_sub_days_def toordinal_mk_date days_before_year_def
        days_before_month_values is_leap_def)

lemma partial_update_stopped_by_column_check:
  "run_validation True patch_discharge_date = Inr patch_discharge_date"
  "perform_update True 200 1 patch_discharge_date example_db = Inl (ServerError IntegrityError)"
  by (simp_all add: perform_update_def run_validation_def
        DischargeSummaryCreateSerializer_validate_def patch_discharge_date_def
        set_attributes_def DischargeSummary_save_def Model_save_def Let_def
        save_length_of_stay_def to_row_def example_db_def example_row_def from_row_def
        date_sub_days_dec_2025)

section \<open>The age of a patient\<close>

lemma pair_less_lex:
  "pair_less (m1, d1) (m2, d2) \<longleftrightarrow> m1 < m2 \<or> (m1 = m2 \<and> d1 < d2)"
  by (auto simp: pair_less_def)

lemma Patient_age_unfold:
  "Patient_age today self =
     year today - year (date_of_birth self) -
       (if month today < month (date_of_birth self) \<or>
           (month today = month (date_of_birth self) \<and> day today < day (date_of_birth self))
        then 1 else 0)"
  by (simp add: Patient_age_def int_of_bool_def pair_less_lex)

lemma Patient_age_future_birth:
  assumes "date_less today (date_of_birth self)"
  shows "Patient_age today self < 0"
proof -
  let ?b = "date_of_birth self"
  from assms consider (y) "year today < year ?b"
    | (m) "year today = year ?b"
        "month today < month ?b \<or> (month today = month ?b \<and> day today < day ?b)"
    unfolding date_less_def by blast
  then show ?thesis
  proof cases
    case y
    then show ?thesis by (simp add: Patient_age_unfold)
  next
    case m
    then show ?thesis by (simp add: Patient_age_unfold)
  qed
qed

section \<open>The order of listings\<close>






section \<open>Replacing the emergency contacts of a patient\<close>

lemma create_contacts_result:
  "emergency_contacts (create_contacts now pid cs st) =
     emergency_contacts st @ new_contacts now pid (next_contact_id st) cs"
  by (induction cs arbitrary: st) simp_all

lemma new_contacts_patient: "c \<in> set (new_contacts now pid k cs) \<Longrightarrow> contact_patient c = pid"
  by (induction cs arbitrary: k) (auto simp: EmergencyContact_create_def)

lemma new_contacts_ids: "c \<in> set (new_contacts now pid k cs) \<Longrightarrow> k \<le> contact_id c"
  by (induction cs arbitrary: k) (fastforce simp: EmergencyContact_create_def)+

lemma new_contacts_content:
  "map (\<lambda>c. (full_name c, relationship c, contact_phone_number c)) (new_contacts now pid k cs) =
   map (\<lambda>d. (c_full_name d, c_relationship d, c_phone_number d)) cs"
  by (induction cs arbitrary: k) (simp_all add: EmergencyContact_create_def)

lemma new_contacts_keys:
  "map contact_id (new_contacts now pid k cs) = [k ..< k + length cs]"
  by (induction cs arbitrary: k) (simp_all add: EmergencyContact_create_def upt_rec)

lemma filter_new_contacts_same:
  "filter (\<lambda>c. contact_patient c = pid) (new_contacts now pid k cs) = new_contacts now pid k cs"
  by (rule filter_True) (simp add: new_contacts_patient)

lemma filter_new_contacts_other:
  "q \<noteq> pid \<Longrightarrow> filter (\<lambda>c. contact_patient c = q) (new_contacts now pid k cs) = []"
  by (rule filter_False) (simp add: new_contacts_patient)

lemma Patient_save_contacts:
  assumes "Patient_save now self st = Inr st1"
  shows "emergency_contacts st1 = emergency_contacts st \<and> next_contact_id st1 = next_contact_id st"
  using assms by (auto simp: Patient_save_def Let_def split: if_splits)

lemma update_or_create_address_contacts:
  "emergency_contacts (update_or_create_address pid a st) = emergency_contacts st"
  "next_contact_id (update_or_create_address pid a st) = next_contact_id st"
  by (simp_all add: update_or_create_address_def Address_create_def)

lemma patient_pk_set_attributes: "patient_pk (Patient_set_attributes instance data) = patient_pk instance"
  by (simp add: Patient_set_attributes_def)

lemma update_contacts_absent:
  assumes "PatientDetailSerializer_update now instance vd st = Inr (instance', st')"
    and "v_emergency_contacts vd = None"
  shows "emergency_contacts st' = emergency_contacts st"
  using assms
  by (auto simp: PatientDetailSerializer_update_def Let_def update_or_create_address_contacts
        dest!: Patient_save_contacts split: sum.splits option.splits)

lemma update_contacts_present:
  assumes "PatientDetailSerializer_update now instance vd st = Inr (instance', st')"
    and "v_emergency_contacts vd = Some cs"
  shows "emergency_contacts st' =
           filter (\<lambda>c. contact_patient c \<noteq> patient_pk instance) (emergency_contacts st) @
           new_contacts now (patient_pk instance) (next_contact_id st) cs"
  using assms
  by (auto simp: PatientDetailSerializer_update_def Let_def update_or_create_address_contacts
        create_contacts_result delete_contacts_def patient_pk_set_attributes
        dest!: Patient_save_contacts split: sum.splits option.splits)

lemma update_succeeds:
  assumes "\<not> list_ex (\<lambda>q. patient_pk q \<noteq> patient_pk instance \<and>
                          national_id q = national_id (Patient_set_attributes instance vd))
             (patients st)"
  shows "\<exists>st'. PatientDetailSerializer_update now instance vd st =
                 Inr (Patient_set_attributes instance vd, st')"
  using assms
  by (simp add: PatientDetailSerializer_update_def Let_def Patient_save_def
        patient_pk_set_attributes)

lemma example_update:
  "PatientDetailSerializer_update 300 enrolled_patient payload_with_contacts example_patient_db =
     Inr (enrolled_patient\<lparr>phone_number := ''+250788999999''\<rparr>,
          \<lparr>patients = [enrolled_patient\<lparr>phone_number := ''+250788999999'',
                                        patient_updated_at := 300\<rparr>],
           addresses = [],
           emergency_contacts =
             [contact_of_other,
              \<lparr>contact_id = 3, contact_patient = 1, full_name = ''Alice Uwimana'',
               relationship = ''child'', contact_phone_number = ''+250788000003'',
               contact_alt_phone_number = [], is_primary = False, contact_created_at = 300\<rparr>],
           next_address_id = 1, next_contact_id = 4\<rparr>)"
  by (simp add: PatientDetailSerializer_update_def Let_def Patient_save_def
        Patient_set_attributes_def payload_with_contacts_def example_patient_db_def
        enrolled_patient_def delete_contacts_def contact_of_jean_def contact_of_other_def
        new_contact_data_def EmergencyContact_create_def)

section \<open>The claims\<close>

text \<open>
  C1. Whenever a discharge summary with both dates set is saved, the instance and the row
  written for it hold the discharge date minus the admission date in whole days,
  whatever length of stay the instance held before; saving a stored record after its
  dates were changed succeeds (for a non-negative stay) and overwrites the stored
  length of stay with the new difference. From 1 January 2026 to 10 January 2026 is 9
  days, and equal dates give 0.
\<close>

theorem length_of_stay_recomputed_on_every_save:
  assumes "admission_date self = Some a" and "discharge_date self = Some d"
  shows "(\<forall>self' st'. DischargeSummary_save now self st = Inr (self', st') \<longrightarrow>
            length_of_stay_days self' = Some (date_sub_days d a) \<and>
            (\<exists>k row. pk self' = Some k \<and> rows st' k = Some row \<and>
               row_length_of_stay_days row = date_sub_days d a))
       \<and> (\<forall>row a2 d2. 0 \<le> date_sub_days d2 a2 \<longrightarrow>
            (\<exists>s2 st2 row2.
               DischargeSummary_save now
                 ((from_row row)\<lparr>admission_date := Some a2, discharge_date := Some d2\<rparr>) st
                 = Inr (s2, st2) \<and>
               rows st2 (row_id row) = Some row2 \<and>
               row_length_of_stay_days row2 = date_sub_days d2 a2))
       \<and> date_sub_days (mk_date 2026 1 10) (mk_date 2026 1 1) = 9
       \<and> date_sub_days a a = 0"
proof (intro conjI allI impI)
  fix self' st'
  assume s: "DischargeSummary_save now self st = Inr (self', st')"
  show "length_of_stay_days self' = Some (date_sub_days d a)"
    by (rule save_Inr(1) [OF s assms])
  from save_Inr(2) [OF s assms]
  show "\<exists>k row. pk self' = Some k \<and> rows st' k = Some row \<and>
          row_length_of_stay_days row = date_sub_days d a"
    by blast
next
  fix row a2 d2
  assume "0 \<le> date_sub_days d2 a2"
  then show "\<exists>s2 st2 row2.
               DischargeSummary_save now
                 ((from_row row)\<lparr>admission_date := Some a2, discharge_date := Some d2\<rparr>) st
                 = Inr (s2, st2) \<and>
               rows st2 (row_id row) = Some row2 \<and>
               row_length_of_stay_days row2 = date_sub_days d2 a2"
    by (rule save_existing_succeeds)
next
  show "date_sub_days (mk_date 2026 1 10) (mk_date 2026 1 1) = 9"
    by (rule date_sub_days_jan_2026)
  show "date_sub_days a a = 0"
    by (rule date_sub_days_self)
qed

theorem length_of_stay_recomputed_on_every_save_witness:
  "admission_date example_summary = Some (mk_date 2026 1 1) \<and>
   discharge_date example_summary = Some (mk_date 2026 1 10) \<and>
   (\<exists>self' st'. DischargeSummary_save 100 example_summary empty_db = Inr (self', st') \<and>
      length_of_stay_days self' = Some 9 \<and>
      (\<exists>row. rows st' 1 = Some row \<and> row_length_of_stay_days row = 9))"
proof -
  have a: "admission_date example_summary = Some (mk_date 2026 1 1)"
    and d: "discharge_date example_summary = Some (mk_date 2026 1 10)"
    by (simp_all add: example_summary_def)
  obtain self' st' where s: "DischargeSummary_save 100 example_summary empty_db = Inr (self', st')"
    and k: "pk self' = Some 1"
    using example_summary_saved by simp
  from length_of_stay_recomputed_on_every_save [OF a d, of 100 empty_db] s
  have "length_of_stay_days self' = Some (date_sub_days (mk_date 2026 1 10) (mk_date 2026 1 1))"
    and "\<exists>k row. pk self' = Some k \<and> rows st' k = Some row \<and>
           row_length_of_stay_days row = date_sub_days (mk_date 2026 1 10) (mk_date 2026 1 1)"
    by blast+
  with k have "length_of_stay_days self' = Some 9"
    and "\<exists>row. rows st' 1 = Some row \<and> row_length_of_stay_days row = 9"
    by (auto simp: date_sub_days_jan_2026)
  with a d s show ?thesis by blast
qed

text \<open>
  C8. The derivation is idempotent. Applying the two deriving lines of \<^verbatim>\<open>save\<close> twice gives
  what applying them once gives; a record that was saved is already derived; and saving
  it again with its dates unchanged succeeds and leaves the same length of stay on the
  instance and in its row.
\<close>

theorem save_length_of_stay_idempotent:
  assumes "DischargeSummary_save t1 self st = Inr (s1, st1)"
  shows "save_length_of_stay (save_length_of_stay self) = save_length_of_stay self \<and>
         save_length_of_stay s1 = s1 \<and>
         (\<exists>k row1 s2 st2 row2.
            pk s1 = Some k \<and> rows st1 k = Some row1 \<and>
            DischargeSummary_save t2 s1 st1 = Inr (s2, st2) \<and> rows st2 k = Some row2 \<and>
            length_of_stay_days s2 = length_of_stay_days s1 \<and>
            row_length_of_stay_days row2 = row_length_of_stay_days row1)"
proof -
  have d: "save_length_of_stay s1 = s1" by (rule saved_is_derived [OF assms])
  from assms have "Model_save t1 (save_length_of_stay self) st = Inr (s1, st1)"
    by (simp add: DischargeSummary_save_def)
  from Model_save_again [OF this, of t2] d
  have "\<exists>k row1 s2 st2 row2.
            pk s1 = Some k \<and> rows st1 k = Some row1 \<and>
            DischargeSummary_save t2 s1 st1 = Inr (s2, st2) \<and> rows st2 k = Some row2 \<and>
            length_of_stay_days s2 = length_of_stay_days s1 \<and>
            row_length_of_stay_days row2 = row_length_of_stay_days row1"
    by (simp add: DischargeSummary_save_def)
  with d save_length_of_stay_idem show ?thesis by blast
qed

theorem save_length_of_stay_idempotent_witness:
  "\<exists>s1 st1 s2 st2. DischargeSummary_save 100 example_summary empty_db = Inr (s1, st1) \<and>
     DischargeSummary_save 200 s1 st1 = Inr (s2, st2) \<and>
     length_of_stay_days s1 = Some 9 \<and> length_of_stay_days s2 = Some 9"
proof -
  obtain s1 st1 where s: "DischargeSummary_save 100 example_summary empty_db = Inr (s1, st1)"
    and l: "length_of_stay_days s1 = Some 9"
    using example_summary_saved by simp
  from save_length_of_stay_idempotent [OF s, of 200] l show ?thesis
    using s by auto
qed

text \<open>
  C5. When the discharge date precedes the admission date, the deriving lines of
  \<^verbatim>\<open>save\<close> assign the exact difference of the ordinals, a negative integer: they neither
  reject nor clamp. The pair is turned away by \<^verbatim>\<open>validate\<close>, which reports it under
  \<^verbatim>\<open>discharge_date\<close>.
\<close>

theorem negative_length_of_stay_not_rejected_by_derivation:
  assumes "valid_date a" and "valid_date d" and "date_less d a"
    and "admission_date self = Some a" and "discharge_date self = Some d"
  shows "length_of_stay_days (save_length_of_stay self) = Some (date_sub_days d a) \<and>
         date_sub_days d a = toordinal d - toordinal a \<and>
         date_sub_days d a < 0 \<and>
         (\<forall>data. d_admission_date data = Some a \<and> d_discharge_date data = Some d \<longrightarrow>
            DischargeSummaryCreateSerializer_validate data =
              Inl (ValidationError ''discharge_date''
                     ''Discharge date cannot be before admission date.''))"
proof (intro conjI allI impI)
  show "length_of_stay_days (save_length_of_stay self) = Some (date_sub_days d a)"
    by (rule save_length_of_stay_value [OF assms(4,5)])
  show "date_sub_days d a = toordinal d - toordinal a"
    by (simp add: date_sub_days_def)
  show "date_sub_days d a < 0"
    using date_sub_days_neg_iff [OF assms(1,2)] assms(3) by simp
next
  fix data :: DischargeSummaryData
  assume "d_admission_date data = Some a \<and> d_discharge_date data = Some d"
  with assms(3) show "DischargeSummaryCreateSerializer_validate data =
              Inl (ValidationError ''discharge_date''
                     ''Discharge date cannot be before admission date.'')"
    by (simp add: DischargeSummaryCreateSerializer_validate_def)
qed

theorem negative_length_of_stay_not_rejected_by_derivation_witness:
  "valid_date (mk_date 2026 1 10) \<and> valid_date (mk_date 2026 1 5) \<and>
   date_less (mk_date 2026 1 5) (mk_date 2026 1 10) \<and>
   length_of_stay_days
     (save_length_of_stay
        (example_summary\<lparr>admission_date := Some (mk_date 2026 1 10),
                          discharge_date := Some (mk_date 2026 1 5)\<rparr>)) = Some (- 5)"
proof -
  let ?s = "example_summary\<lparr>admission_date := Some (mk_date 2026 1 10),
                          discharge_date := Some (mk_date 2026 1 5)\<rparr>"
  have l: "date_less (mk_date 2026 1 5) (mk_date 2026 1 10)"
    by (simp add: date_less_def mk_date_def)
  have "admission_date ?s = Some (mk_date 2026 1 10)" "discharge_date ?s = Some (mk_date 2026 1 5)"
    by simp_all
  from negative_length_of_stay_not_rejected_by_derivation
         [OF valid_date_examples(3) valid_date_examples(2) l this]
  have "length_of_stay_days (save_length_of_stay ?s) =
          Some (date_sub_days (mk_date 2026 1 5) (mk_date 2026 1 10))"
    by blast
  with l valid_date_examples show ?thesis
    by (simp add: date_sub_days_jan_2026_backwards)
qed







text \<open>
  C9. In every state of the table that requests can produce, every row holds a
  non-negative length of stay, and every record that create or update accepts (validation
  passed, save succeeded) carries a non-negative length of stay. For a payload with both
  dates, as create and full update require, validation alone already makes the derived
  value non-negative; a partial update that sends one date only is not compared with the
  stored other date by \<^verbatim>\<open>validate\<close>, and there the column's check is what keeps a negative
  value out of the table.
\<close>

theorem stored_length_of_stay_non_negative:
  assumes "reachable st"
  shows "(\<forall>k row. rows st k = Some row \<longrightarrow> 0 \<le> row_length_of_stay_days row)
       \<and> (\<forall>now data inst st'. perform_create now data st = Inr (inst, st') \<longrightarrow>
            reachable st' \<and> (\<exists>n. length_of_stay_days inst = Some n \<and> 0 \<le> n))
       \<and> (\<forall>partial now k data inst st'.
            perform_update partial now k data st = Inr (inst, st') \<longrightarrow>
            reachable st' \<and> (\<exists>n. length_of_stay_days inst = Some n \<and> 0 \<le> n))
       \<and> (\<forall>data validated a d.
            run_validation False data = Inr validated \<longrightarrow>
            d_admission_date validated = Some a \<longrightarrow> d_discharge_date validated = Some d \<longrightarrow>
            valid_date a \<longrightarrow> valid_date d \<longrightarrow> 0 \<le> date_sub_days d a)"
proof (intro conjI allI impI)
  fix k row
  assume "rows st k = Some row"
  with reachable_rows_non_negative [OF assms] show "0 \<le> row_length_of_stay_days row"
    by (simp add: rows_non_negative_def)
next
  fix now data inst st'
  assume c: "perform_create now data st = Inr (inst, st')"
  from assms c show "reachable st'" by (rule reachable_create)
  from perform_create_Inr [OF c] DischargeSummary_save_Inr_row
  show "\<exists>n. length_of_stay_days inst = Some n \<and> 0 \<le> n" by blast
next
  fix partial now k data inst st'
  assume u: "perform_update partial now k data st = Inr (inst, st')"
  from assms u show "reachable st'" by (rule reachable_update)
  from perform_update_Inr [OF u] DischargeSummary_save_Inr_row
  show "\<exists>n. length_of_stay_days inst = Some n \<and> 0 \<le> n" by blast
next
  fix data validated a d
  assume "run_validation False data = Inr validated"
    "d_admission_date validated = Some a" "d_discharge_date validated = Some d"
    "valid_date a" "valid_date d"
  then show "0 \<le> date_sub_days d a" by (rule validated_full_payload_non_negative)
qed

theorem stored_length_of_stay_non_negative_witness:
  "reachable empty_db \<and>
   perform_create 100 example_data empty_db = Inr (from_row example_row, example_db) \<and>
   reachable example_db \<and>
   length_of_stay_days (from_row example_row) = Some 9 \<and>
   rows example_db 1 = Some example_row \<and>
   0 \<le> row_length_of_stay_days example_row"
proof -
  have r: "reachable empty_db" by (rule reachable_empty)
  from stored_length_of_stay_non_negative [OF r] example_created
  have r': "reachable example_db" by blast
  have row: "rows example_db 1 = Some example_row" by (simp add: example_db_def)
  from stored_length_of_stay_non_negative [OF r'] row
  have "0 \<le> row_length_of_stay_days example_row" by blast
  moreover have "length_of_stay_days (from_row example_row) = Some 9"
    by (simp add: from_row_def example_row_def)
  ultimately show ?thesis using r r' row example_created by blast
qed

text \<open>
  C2. The age is the difference of the years, less one exactly when today's (month, day)
  comes before the birth date's in the order of pairs. It is 0 when the birth date is
  today, negative for every birth date after today, and no bound is applied: shifting
  today's year by \<open>n\<close> against the same month and day gives exactly \<open>n\<close>, whatever its sign
  or size.
\<close>

theorem patient_age_by_year_difference:
  "Patient_age today self =
     year today - year (date_of_birth self) -
       (if month today < month (date_of_birth self) \<or>
           (month today = month (date_of_birth self) \<and> day today < day (date_of_birth self))
        then 1 else 0)
   \<and> (date_of_birth self = today \<longrightarrow> Patient_age today self = 0)
   \<and> (date_less today (date_of_birth self) \<longrightarrow> Patient_age today self < 0)
   \<and> (\<forall>n. Patient_age (mk_date (year (date_of_birth self) + n)
                              (month (date_of_birth self)) (day (date_of_birth self))) self = n)"
proof (intro conjI impI allI)
  show "Patient_age today self =
     year today - year (date_of_birth self) -
       (if month today < month (date_of_birth self) \<or>
           (month today = month (date_of_birth self) \<and> day today < day (date_of_birth self))
        then 1 else 0)"
    by (rule Patient_age_unfold)
next
  assume "date_of_birth self = today"
  then show "Patient_age today self = 0" by (simp add: Patient_age_unfold)
next
  assume "date_less today (date_of_birth self)"
  then show "Patient_age today self < 0" by (rule Patient_age_future_birth)
next
  fix n
  show "Patient_age (mk_date (year (date_of_birth self) + n)
          (month (date_of_birth self)) (day (date_of_birth self))) self = n"
    by (simp add: Patient_age_unfold mk_date_def)
qed

theorem patient_age_by_year_difference_witness:
  "date_less (mk_date 2026 11 4) (date_of_birth example_patient) \<and>
   Patient_age (mk_date 2026 11 4) example_patient = - 1 \<and>
   Patient_age (mk_date 2026 11 4) example_patient < 0 \<and>
   Patient_age (date_of_birth example_patient) example_patient = 0"
proof -
  have l: "date_less (mk_date 2026 11 4) (date_of_birth example_patient)"
    by (simp add: date_less_def mk_date_def example_patient_def)
  note t = patient_age_by_year_difference [of "mk_date 2026 11 4" example_patient]
  from t l have n: "Patient_age (mk_date 2026 11 4) example_patient < 0" by blast
  from t have "Patient_age (mk_date 2026 11 4) example_patient = - 1"
    by (simp add: mk_date_def example_patient_def)
  moreover from patient_age_by_year_difference [of "date_of_birth example_patient" example_patient]
  have "Patient_age (date_of_birth example_patient) example_patient = 0" by blast
  ultimately show ?thesis using l n by blast
qed

text \<open>
  C6. Address validation fails exactly when one of latitude and longitude is present and
  the other absent (left out or null); with both present and with both absent it returns
  the data.
\<close>

theorem address_coordinates_together:
  "((\<exists>e. AddressSerializer_validate data = Inl e) \<longleftrightarrow>
      (dict_get (a_latitude data) \<noteq> None \<and> dict_get (a_longitude data) = None) \<or>
      (dict_get (a_latitude data) = None \<and> dict_get (a_longitude data) \<noteq> None))
   \<and> (dict_get (a_latitude data) \<noteq> None \<and> dict_get (a_longitude data) \<noteq> None \<longrightarrow>
        AddressSerializer_validate data = Inr data)
   \<and> (dict_get (a_latitude data) = None \<and> dict_get (a_longitude data) = None \<longrightarrow>
        AddressSerializer_validate data = Inr data)"
  by (auto simp: AddressSerializer_validate_def Let_def)

theorem address_coordinates_together_witness:
  "dict_get (a_latitude example_address_data) = Some (- 1957800) \<and>
   dict_get (a_longitude example_address_data) = None \<and>
   (\<exists>e. AddressSerializer_validate example_address_data = Inl e) \<and>
   (\<exists>e. AddressSerializer_validate
          (example_address_data\<lparr>a_latitude := Some None, a_longitude := Some (Some 30061900)\<rparr>)
        = Inl e) \<and>
   AddressSerializer_validate (example_address_data\<lparr>a_longitude := Some (Some 30061900)\<rparr>) =
     Inr (example_address_data\<lparr>a_longitude := Some (Some 30061900)\<rparr>) \<and>
   AddressSerializer_validate (example_address_data\<lparr>a_latitude := None\<rparr>) =
     Inr (example_address_data\<lparr>a_latitude := None\<rparr>)"
proof -
  have p: "dict_get (a_latitude example_address_data) = Some (- 1957800)"
    "dict_get (a_longitude example_address_data) = None"
    by (simp_all add: example_address_data_def dict_get_def)
  from address_coordinates_together [of example_address_data] p
  have f: "\<exists>e. AddressSerializer_validate example_address_data = Inl e" by simp
  let ?l = "example_address_data\<lparr>a_latitude := Some None, a_longitude := Some (Some 30061900)\<rparr>"
  have "dict_get (a_latitude ?l) = None \<and> dict_get (a_longitude ?l) \<noteq> None"
    by (simp add: dict_get_def)
  with address_coordinates_together [of ?l]
  have f': "\<exists>e. AddressSerializer_validate ?l = Inl e" by blast
  let ?b = "example_address_data\<lparr>a_longitude := Some (Some 30061900)\<rparr>"
  have q: "dict_get (a_latitude ?b) \<noteq> None \<and> dict_get (a_longitude ?b) \<noteq> None"
    by (simp add: example_address_data_def dict_get_def)
  with address_coordinates_together [of ?b]
  have g: "AddressSerializer_validate ?b = Inr ?b" by blast
  let ?n = "example_address_data\<lparr>a_latitude := None\<rparr>"
  have "dict_get (a_latitude ?n) = None \<and> dict_get (a_longitude ?n) = None"
    by (simp add: example_address_data_def dict_get_def)
  with address_coordinates_together [of ?n]
  have h: "AddressSerializer_validate ?n = Inr ?n" by blast
  from p f f' g h show ?thesis by blast
qed




text \<open>
  C10. After a successful update of a patient: when the payload has no list of emergency
  contacts, the contact table is as before; when it has one, the patient's contacts are
  exactly the rows newly created from the payload, in its order, under the next keys of
  the sequence, so that none of them carries the key of a contact that existed before
  (keys handed out so far lie below the sequence), and the contacts of every other
  patient are as before.
\<close>

theorem emergency_contacts_replaced_on_update:
  assumes "PatientDetailSerializer_update now instance vd st = Inr (instance', st')"
  shows "(v_emergency_contacts vd = None \<longrightarrow> emergency_contacts st' = emergency_contacts st)
       \<and> (\<forall>cs. v_emergency_contacts vd = Some cs \<longrightarrow>
            emergency_contacts st' =
              filter (\<lambda>c. contact_patient c \<noteq> patient_pk instance) (emergency_contacts st) @
              new_contacts now (patient_pk instance) (next_contact_id st) cs \<and>
            contacts_of (patient_pk instance) st' =
              new_contacts now (patient_pk instance) (next_contact_id st) cs \<and>
            map (\<lambda>c. (full_name c, relationship c, contact_phone_number c))
                (contacts_of (patient_pk instance) st') =
              map (\<lambda>d. (c_full_name d, c_relationship d, c_phone_number d)) cs \<and>
            map contact_id (contacts_of (patient_pk instance) st') =
              [next_contact_id st ..< next_contact_id st + length cs] \<and>
            (\<forall>q. q \<noteq> patient_pk instance \<longrightarrow> contacts_of q st' = contacts_of q st) \<and>
            ((\<forall>old \<in> set (emergency_contacts st). contact_id old < next_contact_id st) \<longrightarrow>
               (\<forall>c \<in> set (contacts_of (patient_pk instance) st').
                  \<forall>old \<in> set (emergency_contacts st). contact_id c \<noteq> contact_id old)))"
proof (intro conjI allI impI ballI)
  assume "v_emergency_contacts vd = None"
  with assms show "emergency_contacts st' = emergency_contacts st"
    by (rule update_contacts_absent)
next
  fix cs
  assume cs: "v_emergency_contacts vd = Some cs"
  let ?pid = "patient_pk instance"
  let ?new = "new_contacts now ?pid (next_contact_id st) cs"
  show e: "emergency_contacts st' =
             filter (\<lambda>c. contact_patient c \<noteq> ?pid) (emergency_contacts st) @ ?new"
    by (rule update_contacts_present [OF assms cs])
  show c: "contacts_of ?pid st' = ?new"
    by (simp add: contacts_of_def e filter_new_contacts_same)
  show "map (\<lambda>c. (full_name c, relationship c, contact_phone_number c)) (contacts_of ?pid st') =
          map (\<lambda>d. (c_full_name d, c_relationship d, c_phone_number d)) cs"
    unfolding c by (rule new_contacts_content)
  show "map contact_id (contacts_of ?pid st') =
          [next_contact_id st ..< next_contact_id st + length cs]"
    unfolding c by (rule new_contacts_keys)
  show "contacts_of q st' = contacts_of q st" if q: "q \<noteq> ?pid" for q
  proof -
    have "filter (\<lambda>c. contact_patient c = q)
            (filter (\<lambda>c. contact_patient c \<noteq> ?pid) (emergency_contacts st)) =
          filter (\<lambda>c. contact_patient c = q) (emergency_contacts st)"
      using q by (auto intro: filter_cong)
    then show ?thesis
      by (simp add: contacts_of_def e filter_new_contacts_other [OF q])
  qed
  show "contact_id c \<noteq> contact_id old"
    if inv: "\<forall>old \<in> set (emergency_contacts st). contact_id old < next_contact_id st"
      and n: "c \<in> set (contacts_of ?pid st')" and o: "old \<in> set (emergency_contacts st)"
    for c old
  proof -
    from n have "c \<in> set ?new" by (simp only: c)
    then have "next_contact_id st \<le> contact_id c" by (rule new_contacts_ids)
    moreover from inv o have "contact_id old < next_contact_id st" by blast
    ultimately show ?thesis by simp
  qed
qed

theorem emergency_contacts_replaced_on_update_witness:
  "\<exists>instance' st'.
     PatientDetailSerializer_update 300 enrolled_patient payload_with_contacts example_patient_db
       = Inr (instance', st') \<and>
     v_emergency_contacts payload_with_contacts = Some [new_contact_data] \<and>
     contacts_of 1 example_patient_db = [contact_of_jean] \<and>
     map contact_id (contacts_of 1 st') = [3] \<and>
     map (\<lambda>c. (full_name c, relationship c, contact_phone_number c)) (contacts_of 1 st') =
       [(''Alice Uwimana'', ''child'', ''+250788000003'')] \<and>
     contacts_of 2 st' = [contact_of_other]"
proof -
  obtain instance' st' where
    u: "PatientDetailSerializer_update 300 enrolled_patient payload_with_contacts
          example_patient_db = Inr (instance', st')"
    using example_update by blast
  have p: "v_emergency_contacts payload_with_contacts = Some [new_contact_data]"
    by (simp add: payload_with_contacts_def)
  have k: "patient_pk enrolled_patient = 1" "next_contact_id example_patient_db = 3"
    by (simp_all add: enrolled_patient_def example_patient_db_def)
  have o: "contacts_of 1 example_patient_db = [contact_of_jean]"
    "contacts_of 2 example_patient_db = [contact_of_other]"
    by (simp_all add: contacts_of_def example_patient_db_def contact_of_jean_def
          contact_of_other_def)
  from emergency_contacts_replaced_on_update [OF u] p
  have "map (\<lambda>c. (full_name c, relationship c, contact_phone_number c))
          (contacts_of (patient_pk enrolled_patient) st') =
        map (\<lambda>d. (c_full_name d, c_relationship d, c_phone_number d)) [new_contact_data]"
    and "map contact_id (contacts_of (patient_pk enrolled_patient) st') =
          [next_contact_id example_patient_db ..<
             next_contact_id example_patient_db + length [new_contact_data]]"
    and "\<forall>q. q \<noteq> patient_pk enrolled_patient \<longrightarrow>
           contacts_of q st' = contacts_of q example_patient_db"
    by blast+
  with k o have
    "map (\<lambda>c. (full_name c, relationship c, contact_phone_number c)) (contacts_of 1 st') =
       [(''Alice Uwimana'', ''child'', ''+250788000003'')]"
    "map contact_id (contacts_of 1 st') = [3]"
    "contacts_of 2 st' = [contact_of_other]"
    by (simp_all add: new_contact_data_def upt_rec)
  with u p o show ?thesis
    by (intro exI [of _ instance'] exI [of _ st'] conjI)
qed

end
